theory Spec2Isabelle
  imports Complex_Main "HOL-Library.Sublist"
begin

section \<open>The notebooks\<close>

text \<open>
  The repository is two Jupyter notebooks, \<^verbatim>\<open>ecco_v4_example.ipynb\<close> (the ECCO ocean
  state estimate) and the sea surface altimetry notebook. A notebook is a list of cells;
  a code cell is the list of its source lines, run top to bottom when the cell is
  executed. The code cells are given here in the order of the file, each line as the
  notebook has it (without the newline that ends it); an apostrophe that ends a line is
  appended as \<open>CHR 0x27\<close>. Markdown cells hold no code and are left out.
\<close>

subsection \<open>ECCO notebook\<close>

definition ecco_cell_01 :: "string list" where
  "ecco_cell_01 =
    [''import xarray as xr'',
     ''import numpy as np'',
     ''from matplotlib import pyplot as plt'',
     ''%matplotlib inline'']"

definition ecco_cell_02 :: "string list" where
  "ecco_cell_02 =
    [''import intake'',
     ''ds = intake.cat.ECCOv4r3.to_dask()'',
     ''ds'']"

definition ecco_cell_03 :: "string list" where
  "ecco_cell_03 =
    [''# a trick to make things work a bit faster'',
     ''coords = ds.coords.to_dataset().reset_coords()'',
     ''ds = ds.reset_coords(drop=True)'']"

definition ecco_cell_04 :: "string list" where
  "ecco_cell_04 =
    [''coords.Depth.plot(col='face', col_wrap=5)'']"

definition ecco_cell_05 :: "string list" where
  "ecco_cell_05 =
    [''from llcmapping import LLCMapper'',
     ''mapper = LLCMapper(coords)'',
     ''mapper(coords.Depth);'']"

definition ecco_cell_06 :: "string list" where
  "ecco_cell_06 =
    [''sst = ds.THETA.sel(time='2000-01-15', k=0)'',
     ''sst'']"

definition ecco_cell_07 :: "string list" where
  "ecco_cell_07 =
    [''mapper(sst, cmap='RdBu_r');'']"

definition ecco_cell_08 :: "string list" where
  "ecco_cell_08 =
    [''mean_sst = ds.THETA.sel(k=0).mean(dim='time')'',
     ''mean_sst'']"

definition ecco_cell_09 :: "string list" where
  "ecco_cell_09 =
    [''%time mean_sst.load()'']"

definition ecco_cell_10 :: "string list" where
  "ecco_cell_10 =
    [''mapper(mean_sst, cmap='RdBu_r');'']"

definition ecco_cell_11 :: "string list" where
  "ecco_cell_11 =
    [''from dask_kubernetes import KubeCluster'',
     ''from dask.distributed import Client'',
     ''cluster = KubeCluster()'',
     ''cluster.adapt(minimum=1, maximum=10)'',
     ''cluster'']"

definition ecco_cell_12 :: "string list" where
  "ecco_cell_12 =
    [''%time ds.THETA.isel(k=0).mean(dim='time').load()'']"

definition ecco_cell_13 :: "string list" where
  "ecco_cell_13 =
    [''# the monthly climatology'',
     ''theta_clim = ds.THETA.groupby('time.month').mean(dim='time')'',
     ''# the anomaly'',
     ''theta_anom = ds.THETA.groupby('time.month') - theta_clim'',
     ''rho0 = 1029'',
     ''cp = 3994'',
     ''ohc = rho0 * cp * (theta_anom *'',
     ''                   coords.rA *'',
     ''                   coords.hFacC).sum(dim=['face', 'j', 'i'])'',
     ''ohc'']"

definition ecco_cell_14 :: "string list" where
  "ecco_cell_14 =
    [''# actually load the data'',
     ''ohc.load()'',
     ''# put the depth coordinate back for plotting purposes'',
     ''ohc.coords['Z'] = coords.Z'',
     ''ohc.swap_dims({'k': 'Z'}).transpose().plot(vmax=1e20)'']"

definition ecco_cell_15 :: "string list" where
  "ecco_cell_15 =
    [''import xgcm'',
     '''',
     ''# define the connectivity between faces'',
     ''face_connections = {'face':'',
     ''                    {0: {'X':  ((12, 'Y', False), (3, 'X', False)),'',
     ''                         'Y':  (None,             (1, 'Y', False))},'',
     ''                     1: {'X':  ((11, 'Y', False), (4, 'X', False)),'',
     ''                         'Y':  ((0, 'Y', False),  (2, 'Y', False))},'',
     ''                     2: {'X':  ((10, 'Y', False), (5, 'X', False)),'',
     ''                         'Y':  ((1, 'Y', False),  (6, 'X', False))},'',
     ''                     3: {'X':  ((0, 'X', False),  (9, 'Y', False)),'',
     ''                         'Y':  (None,             (4, 'Y', False))},'',
     ''                     4: {'X':  ((1, 'X', False),  (8, 'Y', False)),'',
     ''                         'Y':  ((3, 'Y', False),  (5, 'Y', False))},'',
     ''                     5: {'X':  ((2, 'X', False),  (7, 'Y', False)),'',
     ''                         'Y':  ((4, 'Y', False),  (6, 'Y', False))},'',
     ''                     6: {'X':  ((2, 'Y', False),  (7, 'X', False)),'',
     ''                         'Y':  ((5, 'Y', False),  (10, 'X', False))},'',
     ''                     7: {'X':  ((6, 'X', False),  (8, 'X', False)),'',
     ''                         'Y':  ((5, 'X', False),  (10, 'Y', False))},'',
     ''                     8: {'X':  ((7, 'X', False),  (9, 'X', False)),'',
     ''                         'Y':  ((4, 'X', False),  (11, 'Y', False))},'',
     ''                     9: {'X':  ((8, 'X', False),  None),'',
     ''                         'Y':  ((3, 'X', False),  (12, 'Y', False))},'',
     ''                     10: {'X': ((6, 'Y', False),  (11, 'X', False)),'',
     ''                          'Y': ((7, 'Y', False),  (2, 'X', False))},'',
     ''                     11: {'X': ((10, 'X', False), (12, 'X', False)),'',
     ''                          'Y': ((8, 'Y', False),  (1, 'X', False))},'',
     ''                     12: {'X': ((11, 'X', False), None),'',
     ''                          'Y': ((9, 'Y', False),  (0, 'X', False))}}}'',
     '''',
     ''# create the grid object'',
     ''grid = xgcm.Grid(ds, periodic=False, face_connections=face_connections)'',
     ''grid'']"

definition ecco_cell_16 :: "string list" where
  "ecco_cell_16 =
    [''# vertical integral and time mean of horizontal diffusive heat flux'',
     ''advx_th_vint = ds.ADVx_TH.sum(dim='k').mean(dim='time')'',
     ''advy_th_vint = ds.ADVy_TH.sum(dim='k').mean(dim='time')'',
     '''',
     ''# difference in the x and y directions'',
     ''diff_ADV_th = grid.diff_2d_vector({'X': advx_th_vint, 'Y': advy_th_vint}, boundary='fill')'',
     ''# convergence'',
     ''conv_ADV_th = -diff_ADV_th['X'] - diff_ADV_th['Y']'',
     ''conv_ADV_th'']"

definition ecco_cell_17 :: "string list" where
  "ecco_cell_17 =
    [''# vertical integral and time mean of horizontal diffusive heat flux'',
     ''difx_th_vint = ds.DFxE_TH.sum(dim='k').mean(dim='time')'',
     ''dify_th_vint = ds.DFyE_TH.sum(dim='k').mean(dim='time')'',
     '''',
     ''# difference in the x and y directions'',
     ''diff_DIF_th = grid.diff_2d_vector({'X': difx_th_vint, 'Y': dify_th_vint}, boundary='fill')'',
     ''# convergence'',
     ''conv_DIF_th = -diff_DIF_th['X'] - diff_DIF_th['Y']'',
     ''conv_DIF_th'']"

definition ecco_cell_18 :: "string list" where
  "ecco_cell_18 =
    [''# convert to Watts / m^2 and load'',
     ''mean_adv_conv = rho0 * cp * (conv_ADV_th/coords.rA).fillna(0.).load()'',
     ''mean_dif_conv = rho0 * cp * (conv_DIF_th/coords.rA).fillna(0.).load()'']"

definition ecco_cell_19 :: "string list" where
  "ecco_cell_19 =
    [''m, ax = mapper(mean_adv_conv, cmap='RdBu_r', vmax=300, vmin=-300);'',
     ''ax.set_title(r'Convergence of Advective Flux (W/m$^2$)');'']"

definition ecco_cell_20 :: "string list" where
  "ecco_cell_20 =
    [''m, ax = mapper(mean_dif_conv, cmap='RdBu_r', vmax=300, vmin=-300)'',
     ''ax.set_title(r'Convergence of Diffusive Flux (W/m$^2$)');'']"

definition ecco_cell_21 :: "string list" where
  "ecco_cell_21 =
    [''m, ax = mapper(mean_dif_conv + mean_adv_conv, cmap='RdBu_r', vmax=300, vmin=-300)'',
     ''ax.set_title(r'Convergence of Net Horizontal Flux (W/m$^2$)');'']"

definition ecco_cell_22 :: "string list" where
  "ecco_cell_22 =
    [''m, ax = mapper(ds.TFLUX.mean(dim='time').load(), cmap='RdBu_r', vmax=300, vmin=-300);'',
     ''ax.set_title(r'Surface Heat Flux (W/m$^2$)');'']"

definition ecco_cell_23 :: "string list" where
  "ecco_cell_23 =
    []"

text \<open>The code cells of the ECCO notebook, in order.\<close>

definition ecco_code_cells :: "string list list" where
  "ecco_code_cells =
    [ecco_cell_01, ecco_cell_02, ecco_cell_03, ecco_cell_04,
     ecco_cell_05, ecco_cell_06, ecco_cell_07, ecco_cell_08,
     ecco_cell_09, ecco_cell_10, ecco_cell_11, ecco_cell_12,
     ecco_cell_13, ecco_cell_14, ecco_cell_15, ecco_cell_16,
     ecco_cell_17, ecco_cell_18, ecco_cell_19, ecco_cell_20,
     ecco_cell_21, ecco_cell_22, ecco_cell_23]"

subsection \<open>Sea surface altimetry notebook\<close>

definition altimetry_cell_01 :: "string list" where
  "altimetry_cell_01 =
    [''import numpy as np'',
     ''import xarray as xr'',
     ''import matplotlib.pyplot as plt'',
     ''import gcsfs'',
     ''plt.rcParams['figure.figsize'] = (15,10)'',
     ''%matplotlib inline'']"

definition altimetry_cell_02 :: "string list" where
  "altimetry_cell_02 =
    [''import intake'',
     ''ds = intake.cat.sea_surface_height.to_dask()'',
     ''ds'']"

definition altimetry_cell_03 :: "string list" where
  "altimetry_cell_03 =
    [''for v in ds.data_vars:'',
     ''    print('{:>10}: {}'.format(v, ds[v].attrs['long_name']))'']"

definition altimetry_cell_04 :: "string list" where
  "altimetry_cell_04 =
    [''plt.rcParams['figure.figsize'] = (15, 8)'',
     ''ds.sla.sel(time='2000-01-01', method='nearest').plot()'']"

definition altimetry_cell_05 :: "string list" where
  "altimetry_cell_05 =
    [''import holoviews as hv'',
     ''from holoviews.operation.datashader import regrid'',
     ''hv.extension('bokeh')'']"

definition altimetry_cell_06 :: "string list" where
  "altimetry_cell_06 =
    [''dataset = hv.Dataset(ds.sla)'',
     ''hv_im = (dataset.to(hv.Image, ['longitude', 'latitude'], dynamic=True)'',
     ''                .redim.range(sla=(-0.5, 0.5))'',
     ''                .options(cmap='RdBu_r', width=800, height=450, colorbar=True))'',
     '''',
     ''%output holomap='scrubber' fps=2'',
     ''regrid(hv_im, precompute=True)'']"

definition altimetry_cell_07 :: "string list" where
  "altimetry_cell_07 =
    [''from dask.distributed import Client, progress'',
     '''',
     ''from dask_kubernetes import KubeCluster'',
     ''cluster = KubeCluster()'',
     ''cluster.adapt(minimum=1, maximum=20)'',
     ''cluster'']"

definition altimetry_cell_08 :: "string list" where
  "altimetry_cell_08 =
    [''client = Client(cluster)'',
     ''client'']"

definition altimetry_cell_09 :: "string list" where
  "altimetry_cell_09 =
    [''# the number of GB involved in the reduction'',
     ''ds.sla.nbytes/1e9'']"

definition altimetry_cell_10 :: "string list" where
  "altimetry_cell_10 =
    [''# the computationally intensive step'',
     ''sla_timeseries = ds.sla.mean(dim=('latitude', 'longitude')).load()'']"

definition altimetry_cell_11 :: "string list" where
  "altimetry_cell_11 =
    [''sla_timeseries.plot(label='full data')'',
     ''sla_timeseries.rolling(time=365, center=True).mean().plot(label='rolling annual mean')'',
     ''plt.ylabel('Sea Level Anomaly [m]')'',
     ''plt.title('Global Mean Sea Level')'',
     ''plt.legend()'',
     ''plt.grid()'']"

definition altimetry_cell_12 :: "string list" where
  "altimetry_cell_12 =
    [''sla_hov = ds.sla.mean(dim='longitude').load()'']"

definition altimetry_cell_13 :: "string list" where
  "altimetry_cell_13 =
    [''fig, ax = plt.subplots(figsize=(12, 4))'',
     ''sla_hov.name = 'Sea Level Anomaly [m]'' @ [CHR 0x27],
     ''sla_hov.transpose().plot(vmax=0.2, ax=ax)'']"

definition altimetry_cell_14 :: "string list" where
  "altimetry_cell_14 =
    [''sla_std = ds.sla.std(dim='time').load()'',
     ''sla_std.name = 'Sea Level Variability [m]'' @ [CHR 0x27]]"

definition altimetry_cell_15 :: "string list" where
  "altimetry_cell_15 =
    [''ax = sla_std.plot()'',
     ''_ = plt.title('Sea Level Variability')'']"

definition altimetry_cell_16 :: "string list" where
  "altimetry_cell_16 =
    []"

text \<open>The code cells of the altimetry notebook, in order.\<close>

definition altimetry_code_cells :: "string list list" where
  "altimetry_code_cells =
    [altimetry_cell_01, altimetry_cell_02, altimetry_cell_03, altimetry_cell_04,
     altimetry_cell_05, altimetry_cell_06, altimetry_cell_07, altimetry_cell_08,
     altimetry_cell_09, altimetry_cell_10, altimetry_cell_11, altimetry_cell_12,
     altimetry_cell_13, altimetry_cell_14, altimetry_cell_15, altimetry_cell_16]"

definition notebook_cells :: "string list list" where
  "notebook_cells = ecco_code_cells @ altimetry_code_cells"

section \<open>Reading the cells\<close>

text \<open>
  \<open>occurrences p s\<close> counts the positions of \<open>s\<close> at which the text \<open>p\<close> starts.
\<close>

fun occurrences :: "string \<Rightarrow> string \<Rightarrow> nat" where
  "occurrences p [] = 0"
| "occurrences p (c # cs) = (if prefix p (c # cs) then 1 else 0) + occurrences p cs"

definition mentions :: "string \<Rightarrow> string list \<Rightarrow> bool" where
  "mentions p cell = list_ex (\<lambda>line. 0 < occurrences p line) cell"

text \<open>
  The notebooks ask for the value of a lazy expression with the method call
  \<^verbatim>\<open>.load()\<close>, as in \<^verbatim>\<open>sla_hov = ds.sla.mean(dim='longitude').load()\<close>: the explicit
  request to materialise the expression. The number of such requests that a cell, or
  a statement, issues is the number of calls written in it: no call stands in a loop or
  in a function definition.
\<close>

definition load_requests :: "string list \<Rightarrow> nat" where
  "load_requests cell = sum_list (map (occurrences ''.load('') cell)"


text \<open>
  Python intercepts an exception with a \<^verbatim>\<open>try\<close> statement (its \<^verbatim>\<open>except\<close> and
  \<^verbatim>\<open>finally\<close> clauses) or with a context manager entered by \<^verbatim>\<open>with\<close>. Lines that
  mention none of these words write no handler. (A handler can still be at work around
  them: that of the \<^verbatim>\<open>%time\<close> magic, below.)
\<close>

definition handler_keywords :: "string list" where
  "handler_keywords = [''try'', ''except'', ''finally'', ''with'']"

definition writes_handler :: "string list \<Rightarrow> bool" where
  "writes_handler cell = list_ex (\<lambda>kw. mentions kw cell) handler_keywords"

section \<open>The statements of a cell\<close>







section \<open>Running a cell\<close>












section \<open>The face connectivity of the ECCO notebook\<close>

text \<open>
  The heat-budget section of \<^verbatim>\<open>ecco_v4_example.ipynb\<close> (its fifteenth code cell)
  writes the topology of the thirteen LLC faces as a nested Python dictionary and hands
  it to \<^verbatim>\<open>xgcm.Grid\<close>:
  \<^verbatim>\<open>face_connections = {'face': {0: {'X': ((12, 'Y', False), (3, 'X', False)),
                                      'Y': (None, (1, 'Y', False))}, ...}}\<close>
  A link is the triple (neighbouring face, axis of the neighbour, reverse flag); each axis
  of a face carries a pair of optional links, the first across its left side and the
  second across its right side; \<^verbatim>\<open>None\<close> is a side with no neighbour. The dictionaries
  are association lists in the order of the source.
\<close>

type_synonym link = "nat \<times> string \<times> bool"

type_synonym axis_links = "link option \<times> link option"

type_synonym face_dict = "(nat \<times> (string \<times> axis_links) list) list"

definition face_connections :: "(string \<times> face_dict) list" where
  "face_connections =
    [(''face'',
      [(0, [(''X'', (Some (12, ''Y'', False), Some (3, ''X'', False))),
            (''Y'', (None, Some (1, ''Y'', False)))]),
       (1, [(''X'', (Some (11, ''Y'', False), Some (4, ''X'', False))),
            (''Y'', (Some (0, ''Y'', False), Some (2, ''Y'', False)))]),
       (2, [(''X'', (Some (10, ''Y'', False), Some (5, ''X'', False))),
            (''Y'', (Some (1, ''Y'', False), Some (6, ''X'', False)))]),
       (3, [(''X'', (Some (0, ''X'', False), Some (9, ''Y'', False))),
            (''Y'', (None, Some (4, ''Y'', False)))]),
       (4, [(''X'', (Some (1, ''X'', False), Some (8, ''Y'', False))),
            (''Y'', (Some (3, ''Y'', False), Some (5, ''Y'', False)))]),
       (5, [(''X'', (Some (2, ''X'', False), Some (7, ''Y'', False))),
            (''Y'', (Some (4, ''Y'', False), Some (6, ''Y'', False)))]),
       (6, [(''X'', (Some (2, ''Y'', False), Some (7, ''X'', False))),
            (''Y'', (Some (5, ''Y'', False), Some (10, ''X'', False)))]),
       (7, [(''X'', (Some (6, ''X'', False), Some (8, ''X'', False))),
            (''Y'', (Some (5, ''X'', False), Some (10, ''Y'', False)))]),
       (8, [(''X'', (Some (7, ''X'', False), Some (9, ''X'', False))),
            (''Y'', (Some (4, ''X'', False), Some (11, ''Y'', False)))]),
       (9, [(''X'', (Some (8, ''X'', False), None)),
            (''Y'', (Some (3, ''X'', False), Some (12, ''Y'', False)))]),
       (10, [(''X'', (Some (6, ''Y'', False), Some (11, ''X'', False))),
             (''Y'', (Some (7, ''Y'', False), Some (2, ''X'', False)))]),
       (11, [(''X'', (Some (10, ''X'', False), Some (12, ''X'', False))),
             (''Y'', (Some (8, ''Y'', False), Some (1, ''X'', False)))]),
       (12, [(''X'', (Some (11, ''X'', False), None)),
             (''Y'', (Some (9, ''Y'', False), Some (0, ''X'', False)))])])]"

text \<open>The dictionary stored under the key \<^verbatim>\<open>'face'\<close>.\<close>

definition faces :: "(string \<times> face_dict) list \<Rightarrow> face_dict" where
  "faces fc = (case map_of fc ''face'' of None \<Rightarrow> [] | Some d \<Rightarrow> d)"

text \<open>The two positions of the pair of links of an axis.\<close>

datatype side = Left | Right

fun opposite :: "side \<Rightarrow> side" where
  "opposite Left = Right"
| "opposite Right = Left"

fun pick :: "side \<Rightarrow> axis_links \<Rightarrow> link option" where
  "pick Left (l, r) = l"
| "pick Right (l, r) = r"

text \<open>
  \<open>link_at d a ax s\<close> reads \<^verbatim>\<open>d[a][ax][s]\<close>: the link of face \<open>a\<close> across side \<open>s\<close>
  of its axis \<open>ax\<close>, and \<open>None\<close> where a key is absent or the side has no neighbour.
\<close>

definition link_at :: "face_dict \<Rightarrow> nat \<Rightarrow> string \<Rightarrow> side \<Rightarrow> link option" where
  "link_at d a ax s =
     (case map_of d a of
        None \<Rightarrow> None
      | Some axes \<Rightarrow> (case map_of axes ax of None \<Rightarrow> None | Some p \<Rightarrow> pick s p))"

text \<open>Every link of a dictionary with its place: (face, axis, side, link).\<close>

definition axis_entries :: "nat \<Rightarrow> string \<times> axis_links \<Rightarrow> (nat \<times> string \<times> side \<times> link) list" where
  "axis_entries a e =
     (case e of (ax, (l, r)) \<Rightarrow>
        (case l of None \<Rightarrow> [] | Some k \<Rightarrow> [(a, ax, Left, k)]) @
        (case r of None \<Rightarrow> [] | Some k \<Rightarrow> [(a, ax, Right, k)]))"

definition all_links :: "face_dict \<Rightarrow> (nat \<times> string \<times> side \<times> link) list" where
  "all_links d = concat (map (\<lambda>(a, axes). concat (map (axis_entries a) axes)) d)"

text \<open>
  A link from face \<open>a\<close>, axis \<open>ax\<close>, side \<open>s\<close> to \<open>(b, axb, flag)\<close> is sound when
  \<open>b\<close> is one of the faces 0 to 12, the flag is \<^verbatim>\<open>False\<close>, and face \<open>b\<close> lists
  \<open>(a, ax, False)\<close> across the opposite side of its axis \<open>axb\<close>.
\<close>

definition link_ok :: "face_dict \<Rightarrow> nat \<times> string \<times> side \<times> link \<Rightarrow> bool" where
  "link_ok d e =
     (case e of (a, ax, s, (b, axb, flag)) \<Rightarrow>
        b \<le> 12 \<and> flag = False \<and> link_at d b axb (opposite s) = Some (a, ax, False))"

section \<open>The monthly climatology and the anomaly\<close>

text \<open>
  The heat content cell of the ECCO notebook computes
  \<^verbatim>\<open>theta_clim = ds.THETA.groupby('time.month').mean(dim='time')\<close> (commented
  ``the monthly climatology'') and
  \<^verbatim>\<open>theta_anom = ds.THETA.groupby('time.month') - theta_clim\<close> (``the anomaly'').
  \<^verbatim>\<open>THETA\<close> has the dimensions (time, k, face, j, i). It is modelled as the list of its
  time steps in order; a time step is the calendar month of its time coordinate (the
  label \<^verbatim>\<open>time.month\<close>) and the field at that time, a function from the grid points
  (k, face, j, i) to values. Arithmetic is exact: a value is a rational number, or it is
  missing (\<open>None\<close>, the NaN of the arrays).
\<close>

datatype error = ValueError

type_synonym 'p field = "'p \<Rightarrow> rat option"

type_synonym 'p data_array = "(nat \<times> 'p field) list"

text \<open>\<^verbatim>\<open>.groupby('time.month')\<close> raises \<^verbatim>\<open>ValueError\<close> on an array without time steps.\<close>

definition groupby :: "'p data_array \<Rightarrow> error + 'p data_array" where
  "groupby xs = (if xs = [] then Inl ValueError else Inr xs)"

text \<open>The group labels: the months that occur, each once, in increasing order.\<close>

definition labels :: "'p data_array \<Rightarrow> nat list" where
  "labels xs = sort (remdups (map fst xs))"

text \<open>The members of a group: the fields of the time steps of month \<open>m\<close>.\<close>

definition month_group :: "nat \<Rightarrow> 'p data_array \<Rightarrow> 'p field list" where
  "month_group m xs = map snd (filter (\<lambda>s. fst s = m) xs)"

text \<open>The values that are not missing.\<close>

fun present :: "rat option list \<Rightarrow> rat list" where
  "present [] = []"
| "present (None # vs) = present vs"
| "present (Some x # vs) = x # present vs"

text \<open>
  The mean of xarray skips missing values; the mean of values that are all missing is
  missing.
\<close>

definition nanmean :: "rat option list \<Rightarrow> rat option" where
  "nanmean vs =
     (if present vs = [] then None
      else Some (sum_list (present vs) / of_nat (length (present vs))))"

text \<open>\<^verbatim>\<open>.mean(dim='time')\<close>: the mean over the time steps, at each grid point.\<close>

definition mean_time :: "'p field list \<Rightarrow> 'p field" where
  "mean_time fs = (\<lambda>p. nanmean (map (\<lambda>f. f p) fs))"

text \<open>The mean of a grouped array: one mean field for each label.\<close>

definition groupby_mean :: "'p data_array \<Rightarrow> (nat \<times> 'p field) list" where
  "groupby_mean xs = map (\<lambda>m. (m, mean_time (month_group m xs))) (labels xs)"

text \<open>A difference is missing when one of its operands is.\<close>

fun sub_nan :: "rat option \<Rightarrow> rat option \<Rightarrow> rat option" where
  "sub_nan (Some x) (Some y) = Some (x - y)"
| "sub_nan None b = None"
| "sub_nan (Some x) None = None"

text \<open>
  A grouped array minus \<open>clim\<close>: from each time step the field that \<open>clim\<close> holds for
  its month is subtracted; the time steps keep their order. A time step whose month
  \<open>clim\<close> does not hold becomes missing everywhere.
\<close>

definition groupby_sub :: "'p data_array \<Rightarrow> (nat \<times> 'p field) list \<Rightarrow> 'p data_array" where
  "groupby_sub xs clim =
     map (\<lambda>s. (fst s, case map_of clim (fst s) of
                        None \<Rightarrow> (\<lambda>p. None)
                      | Some c \<Rightarrow> (\<lambda>p. sub_nan (snd s p) (c p)))) xs"

definition theta_clim :: "'p data_array \<Rightarrow> error + (nat \<times> 'p field) list" where
  "theta_clim THETA =
     (case groupby THETA of Inl e \<Rightarrow> Inl e | Inr g \<Rightarrow> Inr (groupby_mean g))"

definition theta_anom :: "'p data_array \<Rightarrow> error + 'p data_array" where
  "theta_anom THETA =
     (case theta_clim THETA of
        Inl e \<Rightarrow> Inl e
      | Inr clim \<Rightarrow> (case groupby THETA of Inl e \<Rightarrow> Inl e | Inr g \<Rightarrow> Inr (groupby_sub g clim)))"

text \<open>The monthly climatology of the anomaly: its mean within every month group.\<close>

definition anom_clim :: "'p data_array \<Rightarrow> error + (nat \<times> 'p field) list" where
  "anom_clim THETA = (case theta_anom THETA of Inl e \<Rightarrow> Inl e | Inr anom \<Rightarrow> theta_clim anom)"

text \<open>For the examples: the values at one grid point, and a grid of a single point.\<close>

definition at_point :: "'p \<Rightarrow> (nat \<times> 'p field) list \<Rightarrow> (nat \<times> rat option) list" where
  "at_point p xs = map (\<lambda>s. (fst s, snd s p)) xs"

definition uniform :: "rat option \<Rightarrow> unit field" where
  "uniform v = (\<lambda>p. v)"

definition three_steps :: "unit data_array" where
  "three_steps = [(1, uniform (Some 3)), (2, uniform (Some 5)), (1, uniform (Some 4))]"

text \<open>
  For the proofs: the mean of a group as a number (0 where it is missing), and the array
  whose values of month \<open>m\<close> have \<open>c m\<close> subtracted.
\<close>

definition offset :: "'p data_array \<Rightarrow> nat \<Rightarrow> 'p \<Rightarrow> rat" where
  "offset xs m p = (case mean_time (month_group m xs) p of None \<Rightarrow> 0 | Some c \<Rightarrow> c)"

definition shifted :: "'p data_array \<Rightarrow> (nat \<Rightarrow> 'p \<Rightarrow> rat) \<Rightarrow> 'p data_array" where
  "shifted xs c = map (\<lambda>s. (fst s, \<lambda>p. map_option (\<lambda>x. x - c (fst s) p) (snd s p))) xs"

section \<open>The flux convergence maps\<close>

text \<open>
  The eighteenth code cell of the ECCO notebook computes
  \<^verbatim>\<open>mean_adv_conv = rho0 * cp * (conv_ADV_th/coords.rA).fillna(0.).load()\<close> and the same
  for \<^verbatim>\<open>conv_DIF_th\<close>, with \<^verbatim>\<open>rho0 = 1029\<close> and \<^verbatim>\<open>cp = 3994\<close> from the heat content
  cell. The arrays hold floating point numbers: an element is a finite number, one of
  the two infinities, or NaN, which is how a missing value is stored. The operations
  follow IEEE 754 on these four kinds of value, on exact rationals: no rounding, no
  overflow, and a single zero, taken as positive.
\<close>

datatype fnum = Fin rat | PInf | NInf | NaN

fun fdiv :: "fnum \<Rightarrow> fnum \<Rightarrow> fnum" where
  "fdiv NaN b = NaN"
| "fdiv (Fin x) NaN = NaN"
| "fdiv PInf NaN = NaN"
| "fdiv NInf NaN = NaN"
| "fdiv (Fin x) (Fin y) =
     (if y = 0 then (if x = 0 then NaN else if 0 < x then PInf else NInf) else Fin (x / y))"
| "fdiv (Fin x) PInf = Fin 0"
| "fdiv (Fin x) NInf = Fin 0"
| "fdiv PInf (Fin y) = (if y < 0 then NInf else PInf)"
| "fdiv NInf (Fin y) = (if y < 0 then PInf else NInf)"
| "fdiv PInf PInf = NaN"
| "fdiv PInf NInf = NaN"
| "fdiv NInf PInf = NaN"
| "fdiv NInf NInf = NaN"

fun fmul :: "fnum \<Rightarrow> fnum \<Rightarrow> fnum" where
  "fmul NaN b = NaN"
| "fmul (Fin x) NaN = NaN"
| "fmul PInf NaN = NaN"
| "fmul NInf NaN = NaN"
| "fmul (Fin x) (Fin y) = Fin (x * y)"
| "fmul (Fin x) PInf = (if x = 0 then NaN else if 0 < x then PInf else NInf)"
| "fmul (Fin x) NInf = (if x = 0 then NaN else if 0 < x then NInf else PInf)"
| "fmul PInf (Fin y) = (if y = 0 then NaN else if 0 < y then PInf else NInf)"
| "fmul NInf (Fin y) = (if y = 0 then NaN else if 0 < y then NInf else PInf)"
| "fmul PInf PInf = PInf"
| "fmul PInf NInf = NInf"
| "fmul NInf PInf = NInf"
| "fmul NInf NInf = PInf"

text \<open>\<^verbatim>\<open>.fillna(v)\<close> puts \<open>v\<close> in the place of NaN and leaves every other value.\<close>

definition fillna :: "fnum \<Rightarrow> fnum \<Rightarrow> fnum" where
  "fillna v x = (case x of NaN \<Rightarrow> v | _ \<Rightarrow> x)"

definition rho0 :: int where
  "rho0 = 1029"

definition cp :: int where
  "cp = 3994"

text \<open>One element of a map, from the convergence and the cell area at its grid point.\<close>

definition flux_conv :: "fnum \<Rightarrow> fnum \<Rightarrow> fnum" where
  "flux_conv conv rA = fmul (Fin (of_int (rho0 * cp))) (fillna (Fin 0) (fdiv conv rA))"

definition mean_adv_conv :: "('p \<Rightarrow> fnum) \<Rightarrow> ('p \<Rightarrow> fnum) \<Rightarrow> 'p \<Rightarrow> fnum" where
  "mean_adv_conv conv_ADV_th rA = (\<lambda>p. flux_conv (conv_ADV_th p) (rA p))"

definition mean_dif_conv :: "('p \<Rightarrow> fnum) \<Rightarrow> ('p \<Rightarrow> fnum) \<Rightarrow> 'p \<Rightarrow> fnum" where
  "mean_dif_conv conv_DIF_th rA = (\<lambda>p. flux_conv (conv_DIF_th p) (rA p))"


section \<open>Materialisation requests\<close>










text \<open>
  A value is also fetched without any \<^verbatim>\<open>.load()\<close>: the first plot of the altimetry
  notebook draws a selection of \<^verbatim>\<open>ds.sla\<close> that no cell has loaded.
\<close>

lemma plot_without_load:
  "mentions ''.plot('' altimetry_cell_04
   \<and> map load_requests (take 4 altimetry_code_cells) = [0, 0, 0, 0]"
  by code_simp

section \<open>The worker bounds\<close>

text \<open>The calls of \<^verbatim>\<open>cluster.adapt\<close> in the notebooks, as they are written.\<close>

lemma adapt_calls:
  "filter (\<lambda>line. 0 < occurrences ''.adapt('' line) (concat ecco_code_cells) =
     [''cluster.adapt(minimum=1, maximum=10)'']"
  "filter (\<lambda>line. 0 < occurrences ''.adapt('' line) (concat altimetry_code_cells) =
     [''cluster.adapt(minimum=1, maximum=20)'']"
  by code_simp+

section \<open>Failures\<close>

lemma no_handler_keyword:
  "filter writes_handler notebook_cells = []"
  by code_simp








section \<open>The face connectivity is well formed\<close>

lemma pick_Some_axis_entries:
  "pick s p = Some k \<Longrightarrow> (a, ax, s, k) \<in> set (axis_entries a (ax, p))"
  by (cases s; cases p) (auto simp: axis_entries_def)

lemma link_at_in_all_links:
  assumes "link_at d a ax s = Some k"
  shows "(a, ax, s, k) \<in> set (all_links d)"
proof -
  from assms obtain axes where axes: "map_of d a = Some axes"
    by (auto simp: link_at_def split: option.splits)
  with assms obtain p where p: "map_of axes ax = Some p" and k: "pick s p = Some k"
    by (auto simp: link_at_def split: option.splits)
  have "(a, axes) \<in> set d"
    using axes by (rule map_of_SomeD)
  moreover have "(ax, p) \<in> set axes"
    using p by (rule map_of_SomeD)
  moreover have "(a, ax, s, k) \<in> set (axis_entries a (ax, p))"
    using k by (rule pick_Some_axis_entries)
  ultimately show ?thesis
    unfolding all_links_def by fastforce
qed

lemma all_links_face_connections_ok:
  "list_all (link_ok (faces face_connections)) (all_links (faces face_connections))"
  by code_simp

lemma face_keys:
  "map fst (faces face_connections) = [0, 1, 2, 3, 4, 5, 6, 7, 8, 9, 10, 11, 12]"
  by code_simp

lemma face_axes:
  "list_all (\<lambda>(a, axes). map fst axes = [''X'', ''Y'']) (faces face_connections)"
  by code_simp

text \<open>
  C8. The topology handed to the grid constructor is well formed: its face indices are
  exactly 0 to 12 (each once), and every link \<open>(b, axb, flag)\<close> that face \<open>a\<close> lists
  across side \<open>s\<close> of axis \<open>ax\<close> names a face \<open>b\<close> in 0..12, has the reverse flag
  \<^verbatim>\<open>False\<close>, and is answered by face \<open>b\<close>, which lists \<open>(a, ax, False)\<close> across the
  opposite side of its axis \<open>axb\<close>.
\<close>

theorem face_connections_well_formed:
  "set (map fst (faces face_connections)) = {0..12}
   \<and> distinct (map fst (faces face_connections))
   \<and> (\<forall>a ax s b axb flag.
        link_at (faces face_connections) a ax s = Some (b, axb, flag) \<longrightarrow>
          b \<le> 12 \<and> flag = False
          \<and> link_at (faces face_connections) b axb (opposite s) = Some (a, ax, False))"
proof (intro conjI allI impI)
  show "set (map fst (faces face_connections)) = {0..12}"
  proof -
    have "{0..12::nat} = set [0..<13]" by auto
    also have "[0..<13] = [0, 1, 2, 3, 4, 5, 6, 7, 8, 9, 10, 11, 12::nat]" by code_simp
    finally show ?thesis unfolding face_keys by simp
  qed
  show "distinct (map fst (faces face_connections))"
    unfolding face_keys by simp
next
  fix a ax s b axb flag
  assume l: "link_at (faces face_connections) a ax s = Some (b, axb, flag)"
  have "(a, ax, s, (b, axb, flag)) \<in> set (all_links (faces face_connections))"
    using l by (rule link_at_in_all_links)
  then have ok: "link_ok (faces face_connections) (a, ax, s, (b, axb, flag))"
    using all_links_face_connections_ok by (simp add: list_all_iff)
  show "b \<le> 12" using ok by (simp add: link_ok_def)
  show "flag = False" using ok by (simp add: link_ok_def)
  show "link_at (faces face_connections) b axb (opposite s) = Some (a, ax, False)"
    using ok by (simp add: link_ok_def)
qed

theorem face_connections_well_formed_witness:
  "link_at (faces face_connections) 0 ''X'' Left = Some (12, ''Y'', False)
   \<and> link_at (faces face_connections) 12 ''Y'' Right = Some (0, ''X'', False)"
proof -
  have l: "link_at (faces face_connections) 0 ''X'' Left = Some (12, ''Y'', False)"
    by code_simp
  from face_connections_well_formed l
  have "link_at (faces face_connections) 12 ''Y'' (opposite Left) = Some (0, ''X'', False)"
    by blast
  with l show ?thesis by simp
qed

section \<open>The monthly mean of the anomaly\<close>

lemma set_labels: "set (labels xs) = fst ` set xs"
  by (simp add: labels_def)

lemma map_of_groupby_mean:
  "map_of (groupby_mean xs) m =
     (if m \<in> fst ` set xs then Some (mean_time (month_group m xs)) else None)"
proof -
  have "map_of (map (\<lambda>m. (m, g m)) ls) m = (if m \<in> set ls then Some (g m) else None)"
    for g :: "nat \<Rightarrow> 'a field" and ls
    by (induction ls) auto
  then show ?thesis
    by (simp add: groupby_mean_def set_labels)
qed

lemma present_map_option: "present (map (map_option f) vs) = map f (present vs)"
  by (induction vs rule: present.induct) simp_all

lemma present_nonempty: "Some x \<in> set vs \<Longrightarrow> present vs \<noteq> []"
  by (induction vs rule: present.induct) auto

lemma mean_exists:
  assumes "s \<in> set xs" and "snd s p = Some x"
  shows "\<exists>c. mean_time (month_group (fst s) xs) p = Some c"
proof -
  have "Some x \<in> set (map (\<lambda>f. f p) (month_group (fst s) xs))"
    using assms by (force simp: month_group_def)
  then have "present (map (\<lambda>f. f p) (month_group (fst s) xs)) \<noteq> []"
    by (rule present_nonempty)
  then show ?thesis by (simp add: mean_time_def nanmean_def)
qed

lemma groupby_sub_shifted:
  "groupby_sub xs (groupby_mean xs) = shifted xs (offset xs)"
  unfolding groupby_sub_def shifted_def
proof (rule map_cong[OF refl], rule prod_eqI)
  fix s assume s: "s \<in> set xs"
  show "fst (fst s, case map_of (groupby_mean xs) (fst s) of None \<Rightarrow> (\<lambda>p. None)
                    | Some c \<Rightarrow> (\<lambda>p. sub_nan (snd s p) (c p)))
      = fst (fst s, \<lambda>p. map_option (\<lambda>x. x - offset xs (fst s) p) (snd s p))"
    by simp
  have "(\<lambda>p. sub_nan (snd s p) (mean_time (month_group (fst s) xs) p))
      = (\<lambda>p. map_option (\<lambda>x. x - offset xs (fst s) p) (snd s p))"
  proof
    fix p
    show "sub_nan (snd s p) (mean_time (month_group (fst s) xs) p)
        = map_option (\<lambda>x. x - offset xs (fst s) p) (snd s p)"
    proof (cases "snd s p")
      case None then show ?thesis by simp
    next
      case (Some x)
      from mean_exists[OF s Some] obtain c where "mean_time (month_group (fst s) xs) p = Some c"
        by blast
      with Some show ?thesis by (simp add: offset_def)
    qed
  qed
  then show "snd (fst s, case map_of (groupby_mean xs) (fst s) of None \<Rightarrow> (\<lambda>p. None)
                    | Some c \<Rightarrow> (\<lambda>p. sub_nan (snd s p) (c p)))
      = snd (fst s, \<lambda>p. map_option (\<lambda>x. x - offset xs (fst s) p) (snd s p))"
    using s by (simp add: map_of_groupby_mean)
qed

lemma theta_anom_shifted:
  "T \<noteq> [] \<Longrightarrow> theta_anom T = Inr (shifted T (offset T))"
  by (simp add: theta_anom_def theta_clim_def groupby_def groupby_sub_shifted)

lemma month_group_shifted:
  "month_group m (shifted xs c) = map (\<lambda>f p. map_option (\<lambda>x. x - c m p) (f p)) (month_group m xs)"
  by (induction xs) (auto simp: month_group_def shifted_def)

lemma sum_list_shift:
  "sum_list (map (\<lambda>x. x - (d::rat)) xs) = sum_list xs - of_nat (length xs) * d"
  by (induction xs) (auto simp: algebra_simps)

lemma present_group_shifted:
  "present (map (\<lambda>f. f p) (month_group m (shifted xs c)))
     = map (\<lambda>x. x - c m p) (present (map (\<lambda>f. f p) (month_group m xs)))"
  by (simp add: month_group_shifted comp_def present_map_option[symmetric])

lemma sum_present_anom:
  "sum_list (present (map (\<lambda>f. f p) (month_group m (shifted xs (offset xs))))) = 0"
proof -
  let ?ps = "present (map (\<lambda>f. f p) (month_group m xs))"
  show ?thesis
  proof (cases "?ps = []")
    case True then show ?thesis by (simp add: present_group_shifted)
  next
    case False
    then have "offset xs m p = sum_list ?ps / of_nat (length ?ps)"
      by (simp add: offset_def mean_time_def nanmean_def)
    moreover have "(of_nat (length ?ps) :: rat) \<noteq> 0" using False by simp
    ultimately show ?thesis
      by (simp add: present_group_shifted sum_list_shift)
  qed
qed

lemma mean_time_anom:
  "mean_time (month_group m (shifted xs (offset xs))) p
     = (if present (map (\<lambda>f. f p) (month_group m xs)) = [] then None else Some 0)"
  using sum_present_anom[of p m xs]
  by (simp add: mean_time_def nanmean_def) (simp add: present_group_shifted)

lemma labels_shifted: "labels (shifted xs c) = labels xs"
  by (simp add: labels_def shifted_def comp_def)

lemma offset_anom:
  "offset (shifted xs (offset xs)) m p = 0"
  by (simp add: offset_def mean_time_anom)

lemma shifted_zero:
  "(\<And>m p. c m p = 0) \<Longrightarrow> shifted xs c = xs"
  by (induction xs) (auto simp: shifted_def option.map_ident)

lemma anom_idem:
  "T \<noteq> [] \<Longrightarrow> theta_anom (shifted T (offset T)) = Inr (shifted T (offset T))"
proof -
  assume "T \<noteq> []"
  then have "shifted T (offset T) \<noteq> []" by (simp add: shifted_def)
  then have "theta_anom (shifted T (offset T))
      = Inr (shifted (shifted T (offset T)) (offset (shifted T (offset T))))"
    by (rule theta_anom_shifted)
  also have "shifted (shifted T (offset T)) (offset (shifted T (offset T))) = shifted T (offset T)"
    by (rule shifted_zero) (rule offset_anom)
  finally show ?thesis .
qed


lemma present_empty_iff: "present vs = [] \<longleftrightarrow> (\<forall>v \<in> set vs. v = None)"
  by (induction vs rule: present.induct) auto

lemma group_has_value:
  "present (map (\<lambda>f. f p) (month_group m xs)) \<noteq> [] \<longleftrightarrow>
     (\<exists>s \<in> set xs. fst s = m \<and> snd s p \<noteq> None)"
  by (force simp: present_empty_iff month_group_def)

lemma map_filter_present:
  "List.map_filter (\<lambda>s. if fst s = m then snd s p else None) xs
     = present (map (\<lambda>f. f p) (month_group m xs))"
proof (induction xs)
  case Nil
  show ?case by (simp add: month_group_def map_filter_simps)
next
  case (Cons s xs)
  then show ?case
    by (cases "snd s p") (simp_all add: month_group_def map_filter_simps)
qed

lemma theta_clim_anom:
  assumes "T \<noteq> []"
  shows "theta_clim (shifted T (offset T)) =
     Inr (map (\<lambda>m. (m, \<lambda>p. if \<exists>s \<in> set T. fst s = m \<and> snd s p \<noteq> None then Some 0 else None))
            (labels T))"
proof -
  have ne: "shifted T (offset T) \<noteq> []"
    using assms by (simp add: shifted_def)
  have "mean_time (month_group m (shifted T (offset T)))
      = (\<lambda>p. if \<exists>s \<in> set T. fst s = m \<and> snd s p \<noteq> None then Some 0 else None)" for m
  proof
    fix p
    show "mean_time (month_group m (shifted T (offset T))) p
        = (if \<exists>s \<in> set T. fst s = m \<and> snd s p \<noteq> None then Some 0 else None)"
      unfolding mean_time_anom using group_has_value[of p m T] by auto
  qed
  then show ?thesis
    using ne by (simp add: theta_clim_def groupby_def groupby_mean_def labels_shifted)
qed

text \<open>
  On three time steps over a grid of one point, with the values 3 and 4 in month 1 and
  5 in month 2: the climatology is 7/2 and 5, the anomalies are -1/2, 0 and 1/2.
\<close>

lemma theta_anom_example:
  "map_sum id (at_point ()) (theta_anom three_steps)
     = Inr [(1, Some (- (1 / 2))), (2, Some 0), (1, Some (1 / 2))]"
  by (simp add: theta_anom_def theta_clim_def groupby_def groupby_mean_def groupby_sub_def
      labels_def month_group_def mean_time_def nanmean_def at_point_def three_steps_def uniform_def)

text \<open>
  C9, as stated, fails where values are missing and on an array without time steps. At
  a grid point where every value of a month is missing (here month 2), the mean of the
  anomaly within that month is missing, not zero; and \<^verbatim>\<open>groupby\<close> raises on an empty
  array, so that there is no anomaly at all.
\<close>

theorem anomaly_mean_missing:
  "map_sum id (at_point ()) (anom_clim [(1, uniform (Some 3)), (1, uniform (Some 4)), (2, uniform None)])
     = Inr [(1, Some 0), (2, None)]
   \<and> theta_anom ([] :: unit data_array) = Inl ValueError"
  by (simp add: anom_clim_def theta_anom_def theta_clim_def groupby_def groupby_mean_def
      groupby_sub_def labels_def month_group_def mean_time_def nanmean_def at_point_def uniform_def)

text \<open>
  C9, amended. With exact arithmetic and a \<^verbatim>\<open>THETA\<close> of at least one time step, the
  anomaly is defined and has the time steps of \<^verbatim>\<open>THETA\<close>. At each grid point it is
  \<^verbatim>\<open>THETA\<close> with one number for each month subtracted from the values of that month,
  missing values staying missing. The values of the anomaly within every month group
  sum to zero at every grid point, so that its monthly climatology is zero wherever the
  group has a value, and missing where it has none. Taking the anomaly of the anomaly
  gives the anomaly again.
\<close>

theorem anomaly_monthly_mean:
  assumes "THETA \<noteq> []"
  shows "\<exists>anom. theta_anom THETA = Inr anom
     \<and> map fst anom = map fst THETA
     \<and> (\<exists>c. \<forall>i < length THETA. \<forall>p.
           snd (anom ! i) p = map_option (\<lambda>x. x - c (fst (THETA ! i)) p) (snd (THETA ! i) p))
     \<and> (\<forall>m p. sum_list (List.map_filter (\<lambda>s. if fst s = m then snd s p else None) anom) = 0)
     \<and> theta_clim anom =
          Inr (map (\<lambda>m. (m, \<lambda>p. if \<exists>s \<in> set THETA. fst s = m \<and> snd s p \<noteq> None
                                then Some 0 else None)) (labels THETA))
     \<and> theta_anom anom = Inr anom"
proof -
  let ?anom = "shifted THETA (offset THETA)"
  have 1: "theta_anom THETA = Inr ?anom"
    using assms by (rule theta_anom_shifted)
  have 2: "map fst ?anom = map fst THETA"
    by (simp add: shifted_def comp_def)
  have "\<forall>i < length THETA. \<forall>p.
      snd (?anom ! i) p = map_option (\<lambda>x. x - offset THETA (fst (THETA ! i)) p) (snd (THETA ! i) p)"
    by (simp add: shifted_def)
  then have 3: "\<exists>c. \<forall>i < length THETA. \<forall>p.
      snd (?anom ! i) p = map_option (\<lambda>x. x - c (fst (THETA ! i)) p) (snd (THETA ! i) p)"
    by blast
  have 4: "\<forall>m p. sum_list (List.map_filter (\<lambda>s. if fst s = m then snd s p else None) ?anom) = 0"
    by (simp add: map_filter_present sum_present_anom)
  have 5: "theta_clim ?anom =
      Inr (map (\<lambda>m. (m, \<lambda>p. if \<exists>s \<in> set THETA. fst s = m \<and> snd s p \<noteq> None
                          then Some 0 else None)) (labels THETA))"
    using assms by (rule theta_clim_anom)
  have 6: "theta_anom ?anom = Inr ?anom"
    using assms by (rule anom_idem)
  from 1 2 3 4 5 6 show ?thesis by blast
qed

theorem anomaly_monthly_mean_witness:
  "three_steps \<noteq> [] \<and> (\<exists>anom. theta_anom three_steps = Inr anom \<and> theta_anom anom = Inr anom)"
proof -
  have ne: "three_steps \<noteq> []" by (simp add: three_steps_def)
  from anomaly_monthly_mean[OF ne] have "\<exists>anom. theta_anom three_steps = Inr anom \<and> theta_anom anom = Inr anom"
    by blast
  with ne show ?thesis by simp
qed


section \<open>Missing values of the flux convergence maps\<close>







lemma flux_conv_finite:
  "y \<noteq> 0 \<Longrightarrow> flux_conv (Fin x) (Fin y) = Fin (4109826 * (x / y))"
  by (simp add: flux_conv_def fillna_def rho0_def cp_def)





end
